theory Spec2Isabelle
  imports Main "HOL-Library.AList"
begin

section \<open>The object model of \<open>geomdl/base.py\<close>\<close>

text \<open>
  The module defines three abstract base classes (\<open>GeomdlObject\<close>, \<open>GeomdlBase\<close>,
  \<open>GeomdlEvaluator\<close>), an exception class, a dictionary subclass and two marker classes
  for runtime type checks. Its methods read and write instance attributes, allocate
  dictionaries and copy objects, so the embedding has an explicit heap: mutable Python
  objects (lists, dictionaries, instances) live at addresses, and every method is a
  function from the heap to a result and the heap it leaves.
\<close>

subsection \<open>Classes\<close>

text \<open>
  \<open>Subclass n p s\<close> is a class named \<open>n\<close> that derives from \<open>p\<close> and inherits every
  method; \<open>s\<close> is its own \<open>__slots__\<close> declaration, if it has one. A subclass of
  \<open>GeomdlEvaluator\<close> is taken to implement the two abstract methods.
\<close>

datatype cls =
    GeomdlObject
  | GeomdlBase
  | GeomdlEvaluator
  | Subclass string cls "string list option"

text \<open>\<open>cls.__name__\<close>.\<close>

fun cls_name :: "cls \<Rightarrow> string" where
  "cls_name GeomdlObject = ''GeomdlObject''"
| "cls_name GeomdlBase = ''GeomdlBase''"
| "cls_name GeomdlEvaluator = ''GeomdlEvaluator''"
| "cls_name (Subclass n p s) = n"

text \<open>
  What the attribute lookup \<open>self.__slots__\<close> returns: \<open>__slots__\<close> is an ordinary
  class attribute, so the lookup stops at the first class along the method resolution
  order that declares it.
\<close>

fun slots_attr :: "cls \<Rightarrow> string list" where
  "slots_attr GeomdlObject = [''_name'', ''_id'', ''_cfg'']"
| "slots_attr GeomdlBase = [''_dimension'', ''_geom_type'', ''_opt_data'', ''_cache'']"
| "slots_attr GeomdlEvaluator = [''_name'', ''_id'', ''_cfg'']"
| "slots_attr (Subclass n p None) = slots_attr p"
| "slots_attr (Subclass n p (Some xs)) = xs"

text \<open>Every slot an instance has: the slots declared by the class and by its ancestors.\<close>

fun all_slots :: "cls \<Rightarrow> string list" where
  "all_slots GeomdlObject = [''_name'', ''_id'', ''_cfg'']"
| "all_slots GeomdlBase =
     [''_dimension'', ''_geom_type'', ''_opt_data'', ''_cache''] @ [''_name'', ''_id'', ''_cfg'']"
| "all_slots GeomdlEvaluator = [''_name'', ''_id'', ''_cfg'']"
| "all_slots (Subclass n p None) = all_slots p"
| "all_slots (Subclass n p (Some xs)) = xs @ all_slots p"

text \<open>
  An instance has a \<open>__dict__\<close> as soon as one class of its ancestry declares no
  \<open>__slots__\<close>; \<open>GeomdlEvaluator\<close> declares none.
\<close>

fun has_dict :: "cls \<Rightarrow> bool" where
  "has_dict GeomdlObject = False"
| "has_dict GeomdlBase = False"
| "has_dict GeomdlEvaluator = True"
| "has_dict (Subclass n p None) = True"
| "has_dict (Subclass n p (Some xs)) = has_dict p"

text \<open>\<open>GeomdlEvaluator\<close> has abstract methods, so \<open>object.__new__\<close> refuses it.\<close>

fun is_abstract :: "cls \<Rightarrow> bool" where
  "is_abstract GeomdlEvaluator = True"
| "is_abstract c = False"

text \<open>\<open>issubclass c d\<close> for the classes of the module.\<close>

fun derives :: "cls \<Rightarrow> cls \<Rightarrow> bool" where
  "derives (Subclass n p s) d = (Subclass n p s = d \<or> derives p d)"
| "derives GeomdlBase d = (d = GeomdlBase \<or> d = GeomdlObject)"
| "derives GeomdlEvaluator d = (d = GeomdlEvaluator \<or> d = GeomdlObject)"
| "derives GeomdlObject d = (d = GeomdlObject)"

subsection \<open>Values, heap objects and exceptions\<close>

type_synonym addr = nat

text \<open>
  Immutable values are carried directly; \<open>PRef a\<close> refers to the mutable object at
  address \<open>a\<close>. \<open>PFunc k\<close> is a callable, identified by a number.
\<close>

datatype pyval =
    PNone
  | PInt int
  | PStr string
  | PFunc nat
  | PTuple "pyval list"
  | PRef addr

text \<open>
  \<open>ODict\<close> is a \<open>GeomdlDict\<close> (a \<open>dict\<close> subclass with no behaviour of its own): its
  items in insertion order. \<open>OInst c as\<close> is an instance of \<open>c\<close> with the attributes
  that are set.
\<close>

datatype pyobj =
    OList "pyval list"
  | ODict "(pyval \<times> pyval) list"
  | OInst cls "(string \<times> pyval) list"

type_synonym heap = "pyobj list"

text \<open>
  \<open>GeomdlError msg data\<close> is the module's exception with its stored message and its
  \<open>data\<close> member; the others are the interpreter's built-in exceptions.
\<close>

datatype error =
    GeomdlError string pyval
  | AttributeError string
  | TypeError
  | ValueError
  | KeyError pyval
  | IndexError
  | RecursionError

definition EXCEPTION_PREFIX :: string where
  "EXCEPTION_PREFIX = ''GEOMDL ERROR: ''"

text \<open>\<open>GeomdlError.__init__(self, msg, data=None)\<close>.\<close>

definition GeomdlError_init :: "string \<Rightarrow> pyval \<Rightarrow> error" where
  "GeomdlError_init msg data = GeomdlError (EXCEPTION_PREFIX @ msg) data"


subsection \<open>Computations on the heap\<close>

text \<open>
  A statement runs on a heap and either returns a value or raises; in both cases it
  leaves a heap behind.
\<close>

type_synonym 'a py = "heap \<Rightarrow> (error + 'a) \<times> heap"

definition py_return :: "'a \<Rightarrow> 'a py" where
  "py_return x = (\<lambda>h. (Inr x, h))"

definition py_raise :: "error \<Rightarrow> 'a py" where
  "py_raise e = (\<lambda>h. (Inl e, h))"

definition py_bind :: "'a py \<Rightarrow> ('a \<Rightarrow> 'b py) \<Rightarrow> 'b py" where
  "py_bind m f = (\<lambda>h. case m h of (Inl e, h') \<Rightarrow> (Inl e, h') | (Inr x, h') \<Rightarrow> f x h')"

text \<open>\<open>for x in xs: s = body(x, s)\<close>, stopping at the first exception.\<close>

fun py_for :: "'a list \<Rightarrow> ('a \<Rightarrow> 's \<Rightarrow> 's py) \<Rightarrow> 's \<Rightarrow> 's py" where
  "py_for [] body s = py_return s"
| "py_for (x # xs) body s = py_bind (body x s) (\<lambda>s'. py_for xs body s')"

definition lookup :: "heap \<Rightarrow> addr \<Rightarrow> pyobj option" where
  "lookup h a = (if a < length h then Some (h ! a) else None)"

text \<open>Allocation: the new object gets the next free address.\<close>

definition alloc :: "pyobj \<Rightarrow> addr py" where
  "alloc obj = (\<lambda>h. (Inr (length h), h @ [obj]))"

text \<open>\<open>GeomdlDict()\<close>.\<close>

definition GeomdlDict_new :: "pyval py" where
  "GeomdlDict_new = py_bind (alloc (ODict [])) (\<lambda>a. py_return (PRef a))"

text \<open>
  \<open>cls.__new__(cls)\<close>: an instance with no attribute set. It raises \<open>TypeError\<close> for a
  class that still has abstract methods.
\<close>

definition cls_new :: "cls \<Rightarrow> addr py" where
  "cls_new c = (if is_abstract c then py_raise TypeError else alloc (OInst c []))"

text \<open>
  \<open>getattr(obj, name)\<close> for a data attribute: none of the module's classes defines a
  \<open>__getattr__\<close>, so an attribute that is not set raises \<open>AttributeError\<close>.
\<close>

definition py_getattr :: "pyval \<Rightarrow> string \<Rightarrow> pyval py" where
  "py_getattr obj name = (\<lambda>h.
     case obj of
       PRef a \<Rightarrow>
         (case lookup h a of
            Some (OInst c as) \<Rightarrow>
              (case map_of as name of
                 Some v \<Rightarrow> (Inr v, h)
               | None \<Rightarrow> (Inl (AttributeError name), h))
          | _ \<Rightarrow> (Inl (AttributeError name), h))
     | _ \<Rightarrow> (Inl (AttributeError name), h))"

text \<open>
  \<open>setattr(obj, name, v)\<close>: an instance without \<open>__dict__\<close> accepts its slots only.
\<close>

definition py_setattr :: "pyval \<Rightarrow> string \<Rightarrow> pyval \<Rightarrow> unit py" where
  "py_setattr obj name v = (\<lambda>h.
     case obj of
       PRef a \<Rightarrow>
         (case lookup h a of
            Some (OInst c as) \<Rightarrow>
              if name \<in> set (all_slots c) \<or> has_dict c
              then (Inr (), h[a := OInst c (AList.update name v as)])
              else (Inl (AttributeError name), h)
          | _ \<Rightarrow> (Inl (AttributeError name), h))
     | _ \<Rightarrow> (Inl (AttributeError name), h))"

text \<open>\<open>self.__class__\<close>.\<close>

definition class_of :: "pyval \<Rightarrow> cls py" where
  "class_of obj = (\<lambda>h.
     case obj of
       PRef a \<Rightarrow>
         (case lookup h a of
            Some (OInst c as) \<Rightarrow> (Inr c, h)
          | _ \<Rightarrow> (Inl TypeError, h))
     | _ \<Rightarrow> (Inl TypeError, h))"


subsection \<open>Built-in functions\<close>

text \<open>\<open>kwargs.get(k, d)\<close> on the keyword arguments of a call.\<close>

definition kwargs_get :: "(string \<times> pyval) list \<Rightarrow> string \<Rightarrow> pyval \<Rightarrow> pyval" where
  "kwargs_get kwargs k d = (case map_of kwargs k of Some v \<Rightarrow> v | None \<Rightarrow> d)"

text \<open>
  \<open>int(s)\<close> for a string, base ten: white space around an optional sign and decimal
  digits, where single underscores may separate digits. A character of a string is a
  code point below 256. The white space that \<open>int\<close> strips is the ASCII white space
  (tab, line feed, vertical tab, form feed, carriage return, space) and, outside ASCII,
  the Unicode white space, which below 256 is U+0085 and U+00A0; the separators
  U+001C to U+001F are not stripped. Below 256 the decimal digits are \<open>0\<close> to \<open>9\<close>.
\<close>

definition is_space :: "char \<Rightarrow> bool" where
  "is_space c = ((of_char c :: nat) \<in> {9, 10, 11, 12, 13, 32, 133, 160})"

definition is_digit :: "char \<Rightarrow> bool" where
  "is_digit c = (48 \<le> (of_char c :: nat) \<and> (of_char c :: nat) \<le> 57)"

fun digits_value :: "nat \<Rightarrow> string \<Rightarrow> nat option" where
  "digits_value acc [] = Some acc"
| "digits_value acc (c # cs) =
     (if is_digit c then digits_value (acc * 10 + (of_char c - 48)) cs
      else if c = CHR ''_'' then
        (case cs of
           [] \<Rightarrow> None
         | d # ds \<Rightarrow> if is_digit d then digits_value acc cs else None)
      else None)"

text \<open>
  The interpreter's limit on the number of digits of a decimal numeral that \<open>int\<close>
  converts (\<open>sys.int_max_str_digits\<close>, by default 4300): a numeral with more digits is
  a \<open>ValueError\<close>.
\<close>

definition int_max_str_digits :: nat where
  "int_max_str_digits = 4300"

definition int_of_string :: "string \<Rightarrow> int option" where
  "int_of_string s =
     (let t = rev (dropWhile is_space (rev (dropWhile is_space s)));
          neg = (case t of [] \<Rightarrow> False | c # cs \<Rightarrow> c = CHR ''-'');
          body = (case t of [] \<Rightarrow> [] | c # cs \<Rightarrow> if c = CHR ''-'' \<or> c = CHR ''+'' then cs else t)
      in case body of
           [] \<Rightarrow> None
         | c # cs \<Rightarrow>
             if is_digit c \<and> length (filter is_digit body) \<le> int_max_str_digits
             then (case digits_value 0 body of
                     Some n \<Rightarrow> Some (if neg then - int n else int n)
                   | None \<Rightarrow> None)
             else None)"

text \<open>
  \<open>int(v)\<close>: an integer is returned as it is, a string is parsed (\<open>ValueError\<close> when it
  is no numeral), and every other value of the model has no integer conversion
  (\<open>TypeError\<close>).
\<close>

definition py_int :: "pyval \<Rightarrow> int py" where
  "py_int v =
     (case v of
        PInt n \<Rightarrow> py_return n
      | PStr s \<Rightarrow> (case int_of_string s of Some n \<Rightarrow> py_return n | None \<Rightarrow> py_raise ValueError)
      | _ \<Rightarrow> py_raise TypeError)"

text \<open>
  Whether a value can be a dictionary key: lists and dictionaries cannot, a tuple can
  when its members can, an instance is hashed by identity.
\<close>

fun hashable :: "heap \<Rightarrow> pyval \<Rightarrow> bool" where
  "hashable h (PTuple xs) = list_all (hashable h) xs"
| "hashable h (PRef a) = (case lookup h a of Some (OInst c as) \<Rightarrow> True | _ \<Rightarrow> False)"
| "hashable h v = True"

text \<open>Sequence indexing with Python's negative indices.\<close>

definition seq_index :: "'a list \<Rightarrow> int \<Rightarrow> nat option" where
  "seq_index xs i =
     (let n = int (length xs); j = (if i < 0 then n + i else i)
      in if 0 \<le> j \<and> j < n then Some (nat j) else None)"

text \<open>\<open>len(obj)\<close>.\<close>

definition py_len :: "pyval \<Rightarrow> nat py" where
  "py_len obj = (\<lambda>h.
     case obj of
       PStr s \<Rightarrow> (Inr (length s), h)
     | PTuple xs \<Rightarrow> (Inr (length xs), h)
     | PRef a \<Rightarrow>
         (case lookup h a of
            Some (OList xs) \<Rightarrow> (Inr (length xs), h)
          | Some (ODict kvs) \<Rightarrow> (Inr (length kvs), h)
          | _ \<Rightarrow> (Inl TypeError, h))
     | _ \<Rightarrow> (Inl TypeError, h))"

text \<open>\<open>obj[k]\<close>.\<close>

definition py_getitem :: "pyval \<Rightarrow> pyval \<Rightarrow> pyval py" where
  "py_getitem obj k = (\<lambda>h.
     case obj of
       PStr s \<Rightarrow>
         (case k of
            PInt i \<Rightarrow> (case seq_index s i of Some j \<Rightarrow> (Inr (PStr [s ! j]), h) | None \<Rightarrow> (Inl IndexError, h))
          | _ \<Rightarrow> (Inl TypeError, h))
     | PTuple xs \<Rightarrow>
         (case k of
            PInt i \<Rightarrow> (case seq_index xs i of Some j \<Rightarrow> (Inr (xs ! j), h) | None \<Rightarrow> (Inl IndexError, h))
          | _ \<Rightarrow> (Inl TypeError, h))
     | PRef a \<Rightarrow>
         (case lookup h a of
            Some (OList xs) \<Rightarrow>
              (case k of
                 PInt i \<Rightarrow> (case seq_index xs i of Some j \<Rightarrow> (Inr (xs ! j), h) | None \<Rightarrow> (Inl IndexError, h))
               | _ \<Rightarrow> (Inl TypeError, h))
          | Some (ODict kvs) \<Rightarrow>
              if hashable h k
              then (case map_of kvs k of Some v \<Rightarrow> (Inr v, h) | None \<Rightarrow> (Inl (KeyError k), h))
              else (Inl TypeError, h)
          | _ \<Rightarrow> (Inl TypeError, h))
     | _ \<Rightarrow> (Inl TypeError, h))"

text \<open>\<open>obj[k] = v\<close>.\<close>

definition py_setitem :: "pyval \<Rightarrow> pyval \<Rightarrow> pyval \<Rightarrow> unit py" where
  "py_setitem obj k v = (\<lambda>h.
     case obj of
       PRef a \<Rightarrow>
         (case lookup h a of
            Some (OList xs) \<Rightarrow>
              (case k of
                 PInt i \<Rightarrow>
                   (case seq_index xs i of
                      Some j \<Rightarrow> (Inr (), h[a := OList (xs[j := v])])
                    | None \<Rightarrow> (Inl IndexError, h))
               | _ \<Rightarrow> (Inl TypeError, h))
          | Some (ODict kvs) \<Rightarrow>
              if hashable h k
              then (Inr (), h[a := ODict (AList.update k v kvs)])
              else (Inl TypeError, h)
          | _ \<Rightarrow> (Inl TypeError, h))
     | _ \<Rightarrow> (Inl TypeError, h))"

text \<open>The items that \<open>*obj\<close> unpacks into an argument list.\<close>

definition py_iter :: "pyval \<Rightarrow> pyval list py" where
  "py_iter obj = (\<lambda>h.
     case obj of
       PStr s \<Rightarrow> (Inr (map (\<lambda>c. PStr [c]) s), h)
     | PTuple xs \<Rightarrow> (Inr xs, h)
     | PRef a \<Rightarrow>
         (case lookup h a of
            Some (OList xs) \<Rightarrow> (Inr xs, h)
          | Some (ODict kvs) \<Rightarrow> (Inr (map fst kvs), h)
          | _ \<Rightarrow> (Inl TypeError, h))
     | _ \<Rightarrow> (Inl TypeError, h))"

text \<open>
  \<open>obj.pop(*args)\<close>. On a dictionary: \<open>pop(k)\<close> raises \<open>KeyError\<close> for a missing key,
  \<open>pop(k, d)\<close> returns \<open>d\<close> for it. On a list: \<open>pop()\<close> and \<open>pop(i)\<close>. No other object of
  the model has a \<open>pop\<close> method.
\<close>

definition py_pop :: "pyval \<Rightarrow> pyval list \<Rightarrow> pyval py" where
  "py_pop obj args = (\<lambda>h.
     case obj of
       PRef a \<Rightarrow>
         (case lookup h a of
            Some (ODict kvs) \<Rightarrow>
              (case args of
                 [k] \<Rightarrow>
                   if hashable h k
                   then (case map_of kvs k of
                           Some v \<Rightarrow> (Inr v, h[a := ODict (AList.delete k kvs)])
                         | None \<Rightarrow> (Inl (KeyError k), h))
                   else (Inl TypeError, h)
               | [k, d] \<Rightarrow>
                   if hashable h k
                   then (case map_of kvs k of
                           Some v \<Rightarrow> (Inr v, h[a := ODict (AList.delete k kvs)])
                         | None \<Rightarrow> (Inr d, h))
                   else (Inl TypeError, h)
               | _ \<Rightarrow> (Inl TypeError, h))
          | Some (OList xs) \<Rightarrow>
              (case args of
                 [] \<Rightarrow>
                   if xs = [] then (Inl IndexError, h)
                   else (Inr (last xs), h[a := OList (butlast xs)])
               | [PInt i] \<Rightarrow>
                   (case seq_index xs i of
                      Some j \<Rightarrow> (Inr (xs ! j), h[a := OList (take j xs @ drop (Suc j) xs)])
                    | None \<Rightarrow> (Inl IndexError, h))
               | _ \<Rightarrow> (Inl TypeError, h))
          | _ \<Rightarrow> (Inl (AttributeError ''pop''), h))
     | _ \<Rightarrow> (Inl (AttributeError ''pop''), h))"

text \<open>\<open>obj.append(v)\<close> on a list.\<close>

definition py_append :: "pyval \<Rightarrow> pyval \<Rightarrow> unit py" where
  "py_append obj v = (\<lambda>h.
     case obj of
       PRef a \<Rightarrow>
         (case lookup h a of
            Some (OList xs) \<Rightarrow> (Inr (), h[a := OList (xs @ [v])])
          | _ \<Rightarrow> (Inl (AttributeError ''append''), h))
     | _ \<Rightarrow> (Inl (AttributeError ''append''), h))"

subsection \<open>Types and the registry of the two marker classes\<close>

datatype pytype =
    TObject
  | TNoneType
  | TInt
  | TStr
  | TFunction
  | TTuple
  | TList
  | TDict
  | TGeomdlDict
  | TInstance cls

text \<open>
  \<open>GeomdlTypeSequence\<close> and \<open>GeomdlTypeString\<close> are empty abstract base classes: a type
  belongs to one of them once it has been registered with \<open>register\<close>. The registry is
  state of the running program, so the methods that consult it take it as an argument.
\<close>

datatype capability = GeomdlTypeSequence | GeomdlTypeString

type_synonym registry = "(capability \<times> pytype) list"

definition type_of :: "heap \<Rightarrow> pyval \<Rightarrow> pytype" where
  "type_of h v =
     (case v of
        PNone \<Rightarrow> TNoneType
      | PInt n \<Rightarrow> TInt
      | PStr s \<Rightarrow> TStr
      | PFunc k \<Rightarrow> TFunction
      | PTuple xs \<Rightarrow> TTuple
      | PRef a \<Rightarrow>
          (case lookup h a of
             Some (OList xs) \<Rightarrow> TList
           | Some (ODict kvs) \<Rightarrow> TGeomdlDict
           | Some (OInst c as) \<Rightarrow> TInstance c
           | None \<Rightarrow> TObject))"

fun ancestors :: "cls \<Rightarrow> cls list" where
  "ancestors (Subclass n p s) = Subclass n p s # ancestors p"
| "ancestors GeomdlBase = [GeomdlBase, GeomdlObject]"
| "ancestors GeomdlEvaluator = [GeomdlEvaluator, GeomdlObject]"
| "ancestors GeomdlObject = [GeomdlObject]"

text \<open>The method resolution order of a type.\<close>

fun mro :: "pytype \<Rightarrow> pytype list" where
  "mro TObject = [TObject]"
| "mro TGeomdlDict = [TGeomdlDict, TDict, TObject]"
| "mro (TInstance c) = map TInstance (ancestors c) @ [TObject]"
| "mro t = [t, TObject]"

text \<open>
  \<open>isinstance(v, cap)\<close> for a marker class: the type of \<open>v\<close> or one of its base classes
  has been registered.
\<close>

definition isinstance :: "registry \<Rightarrow> pyval \<Rightarrow> capability \<Rightarrow> bool py" where
  "isinstance reg v cap =
     (\<lambda>h. (Inr (list_ex (\<lambda>t. List.member reg (cap, t)) (mro (type_of h v))), h))"

section \<open>\<open>GeomdlObject\<close>\<close>

type_synonym kwargs = "(string \<times> pyval) list"

text \<open>
  \<open>GeomdlObject.__init__(self, *args, **kwargs)\<close>. The name is stored as it is given;
  the id goes through \<open>int\<close>.
\<close>

definition GeomdlObject_init :: "pyval \<Rightarrow> kwargs \<Rightarrow> unit py" where
  "GeomdlObject_init self kwargs =
     py_bind (class_of self) (\<lambda>c.
     py_bind (py_setattr self ''_name'' (kwargs_get kwargs ''name'' (PStr (cls_name c)))) (\<lambda>_.
     py_bind (py_setattr self ''_name'' (kwargs_get kwargs ''name'' (PStr (cls_name c)))) (\<lambda>_.
     py_bind (py_int (kwargs_get kwargs ''id'' (PInt 0))) (\<lambda>n.
     py_bind (py_setattr self ''_id'' (PInt n)) (\<lambda>_.
     py_bind GeomdlDict_new (\<lambda>d.
     py_setattr self ''_cfg'' d))))))"

text \<open>
  \<open>GeomdlObject.__copy__(self)\<close>. The library function \<open>copy.copy\<close> that it calls on
  every attribute is the parameter \<open>copy_copy\<close>. The loop runs over \<open>self.__slots__\<close>.
\<close>

definition GeomdlObject_copy :: "(pyval \<Rightarrow> pyval py) \<Rightarrow> pyval \<Rightarrow> pyval py" where
  "GeomdlObject_copy copy_copy self =
     py_bind (class_of self) (\<lambda>c.
     py_bind (cls_new c) (\<lambda>r.
     py_bind (py_for (slots_attr c)
                (\<lambda>var u.
                   py_bind (py_getattr self var) (\<lambda>v.
                   py_bind (copy_copy v) (\<lambda>v'.
                   py_setattr (PRef r) var v')))
                ()) (\<lambda>_.
     py_return (PRef r))))"

text \<open>
  The table \<open>memo\<close> of a deep copy maps the \<open>id\<close> of an object to its copy.
\<close>

type_synonym memo = "(addr \<times> pyval) list"

text \<open>\<open>memo[id(x)] = y\<close>: the objects that are entered are heap objects.\<close>

definition memo_set :: "pyval \<Rightarrow> pyval \<Rightarrow> memo \<Rightarrow> memo" where
  "memo_set x y memo = (case x of PRef a \<Rightarrow> AList.update a y memo | _ \<Rightarrow> memo)"

text \<open>
  \<open>x.__new__(GeomdlDict)\<close>: the \<open>__new__\<close> of a dictionary makes an empty
  \<open>GeomdlDict\<close>; the \<open>__new__\<close> of any other type refuses the class with \<open>TypeError\<close>.
\<close>

definition new_GeomdlDict_of :: "pyval \<Rightarrow> pyval py" where
  "new_GeomdlDict_of x = (\<lambda>h.
     case x of
       PRef a \<Rightarrow>
         (case lookup h a of
            Some (ODict kvs) \<Rightarrow> GeomdlDict_new h
          | _ \<Rightarrow> (Inl TypeError, h))
     | _ \<Rightarrow> (Inl TypeError, h))"

text \<open>
  \<open>GeomdlObject.__deepcopy__(self, memo)\<close>, with \<open>copy.deepcopy\<close> as the parameter
  \<open>copy_deepcopy\<close>. The table is a mutable dictionary shared with the callee: here it
  is passed in and returned.
\<close>

definition GeomdlObject_deepcopy ::
  "(pyval \<Rightarrow> memo \<Rightarrow> (pyval \<times> memo) py) \<Rightarrow> pyval \<Rightarrow> memo \<Rightarrow> (pyval \<times> memo) py" where
  "GeomdlObject_deepcopy copy_deepcopy self memo =
     py_bind (class_of self) (\<lambda>c.
     py_bind (cls_new c) (\<lambda>r.
     py_bind (py_getattr self ''_cache'') (\<lambda>cache.
     py_bind (new_GeomdlDict_of cache) (\<lambda>fresh.
     py_bind (py_getattr self ''_cache'') (\<lambda>cache'.
     py_bind (py_for (slots_attr c)
                (\<lambda>var m.
                   py_bind (py_getattr self var) (\<lambda>v.
                   py_bind (copy_deepcopy v m) (\<lambda>(v', m').
                   py_bind (py_setattr (PRef r) var v') (\<lambda>_.
                   py_return m'))))
                (memo_set cache' fresh (memo_set self (PRef r) memo))) (\<lambda>m.
     py_return (PRef r, m)))))))"

text \<open>The property \<open>id\<close>: getter, setter, deleter.\<close>

definition GeomdlObject_id_get :: "pyval \<Rightarrow> pyval py" where
  "GeomdlObject_id_get self = py_getattr self ''_id''"


definition GeomdlObject_id_del :: "pyval \<Rightarrow> unit py" where
  "GeomdlObject_id_del self = py_setattr self ''_id'' (PInt 0)"

text \<open>The property \<open>name\<close>: getter and deleter; \<open>__str__\<close> returns the name.\<close>

definition GeomdlObject_name_get :: "pyval \<Rightarrow> pyval py" where
  "GeomdlObject_name_get self = py_getattr self ''_name''"

definition GeomdlObject_name_del :: "pyval \<Rightarrow> unit py" where
  "GeomdlObject_name_del self = py_setattr self ''_name'' (PStr [])"

definition GeomdlObject_str :: "pyval \<Rightarrow> pyval py" where
  "GeomdlObject_str self = GeomdlObject_name_get self"

section \<open>The library functions \<open>copy.copy\<close> and \<open>copy.deepcopy\<close>\<close>

text \<open>
  Both call back into \<open>__copy__\<close> and \<open>__deepcopy__\<close> for an instance, and these call
  them again on the attributes. The first argument bounds the depth of these calls, as
  the interpreter's recursion limit does: at depth 0 the call raises \<open>RecursionError\<close>.

  \<open>copy.copy\<close> returns an immutable value as it is and makes a new list or dictionary
  with the same items.
\<close>

primrec copy_copy :: "nat \<Rightarrow> pyval \<Rightarrow> pyval py" where
  "copy_copy 0 = (\<lambda>x. py_raise RecursionError)"
| "copy_copy (Suc n) = (\<lambda>x h.
     case x of
       PRef a \<Rightarrow>
         (case lookup h a of
            Some (OList xs) \<Rightarrow> py_bind (alloc (OList xs)) (\<lambda>b. py_return (PRef b)) h
          | Some (ODict kvs) \<Rightarrow> py_bind (alloc (ODict kvs)) (\<lambda>b. py_return (PRef b)) h
          | Some (OInst c as) \<Rightarrow> GeomdlObject_copy (copy_copy n) x h
          | None \<Rightarrow> (Inl TypeError, h))
     | _ \<Rightarrow> (Inr x, h))"

text \<open>
  \<open>copy.deepcopy(x, memo)\<close>: an object found in the table is not copied again; a list
  or a dictionary is entered in the table before its items are copied; an instance is
  copied by its \<open>__deepcopy__\<close> and entered afterwards. Tuples have no identity in the
  model, so a tuple is copied member by member each time it is met.
\<close>

primrec copy_deepcopy :: "nat \<Rightarrow> pyval \<Rightarrow> memo \<Rightarrow> (pyval \<times> memo) py" where
  "copy_deepcopy 0 = (\<lambda>x memo. py_raise RecursionError)"
| "copy_deepcopy (Suc n) = (\<lambda>x memo h.
     case x of
       PRef a \<Rightarrow>
         (case map_of memo a of
            Some y \<Rightarrow> (Inr (y, memo), h)
          | None \<Rightarrow>
              (case lookup h a of
                 Some (OList xs) \<Rightarrow>
                   py_bind (alloc (OList [])) (\<lambda>b.
                   py_bind (py_for xs
                              (\<lambda>v m.
                                 py_bind (copy_deepcopy n v m) (\<lambda>(v', m').
                                 py_bind (py_append (PRef b) v') (\<lambda>_.
                                 py_return m')))
                              (memo_set x (PRef b) memo)) (\<lambda>m.
                   py_return (PRef b, memo_set x (PRef b) m))) h
               | Some (ODict kvs) \<Rightarrow>
                   py_bind (alloc (ODict [])) (\<lambda>b.
                   py_bind (py_for kvs
                              (\<lambda>(k, v) m.
                                 py_bind (copy_deepcopy n k m) (\<lambda>(k', m1).
                                 py_bind (copy_deepcopy n v m1) (\<lambda>(v', m2).
                                 py_bind (py_setitem (PRef b) k' v') (\<lambda>_.
                                 py_return m2))))
                              (memo_set x (PRef b) memo)) (\<lambda>m.
                   py_return (PRef b, memo_set x (PRef b) m))) h
               | Some (OInst c as) \<Rightarrow>
                   py_bind (GeomdlObject_deepcopy (copy_deepcopy n) x memo) (\<lambda>(y, m).
                   py_return (y, memo_set x y m)) h
               | None \<Rightarrow> (Inl TypeError, h)))
     | PTuple xs \<Rightarrow>
         py_bind (py_for xs
                    (\<lambda>v (ys, m).
                       py_bind (copy_deepcopy n v m) (\<lambda>(v', m').
                       py_return (ys @ [v'], m')))
                    ([], memo)) (\<lambda>(ys, m).
         py_return (PTuple ys, m)) h
     | _ \<Rightarrow> (Inr (x, memo), h))"

section \<open>\<open>GeomdlBase\<close>\<close>

text \<open>\<open>GeomdlBase.__init__(self, *args, **kwargs)\<close>.\<close>

definition GeomdlBase_init :: "pyval \<Rightarrow> kwargs \<Rightarrow> unit py" where
  "GeomdlBase_init self kwargs =
     py_bind (GeomdlObject_init self kwargs) (\<lambda>_.
     py_bind (py_setattr self ''_dimension'' (PInt 0)) (\<lambda>_.
     py_bind (py_setattr self ''_geom_type'' (PStr [])) (\<lambda>_.
     py_bind GeomdlDict_new (\<lambda>d1.
     py_bind (py_setattr self ''_opt_data'' d1) (\<lambda>_.
     py_bind GeomdlDict_new (\<lambda>d2.
     py_bind (py_setattr self ''_cfg'' d2) (\<lambda>_.
     py_bind GeomdlDict_new (\<lambda>d3.
     py_setattr self ''_cache'' d3))))))))"

text \<open>The property \<open>dimension\<close>: its getter returns \<open>self._dim\<close>.\<close>

definition GeomdlBase_dimension :: "pyval \<Rightarrow> pyval py" where
  "GeomdlBase_dimension self = py_getattr self ''_dim''"

text \<open>The property \<open>type\<close>.\<close>

definition GeomdlBase_type :: "pyval \<Rightarrow> pyval py" where
  "GeomdlBase_type self = py_getattr self ''_geom_type''"

text \<open>The property \<open>opt\<close>: getter, setter, deleter.\<close>

definition GeomdlBase_opt_get :: "pyval \<Rightarrow> pyval py" where
  "GeomdlBase_opt_get self = py_getattr self ''_opt_data''"

definition GeomdlBase_opt_set :: "registry \<Rightarrow> pyval \<Rightarrow> pyval \<Rightarrow> unit py" where
  "GeomdlBase_opt_set reg self key_value =
     py_bind (isinstance reg key_value GeomdlTypeSequence) (\<lambda>is_seq.
     if \<not> is_seq
     then py_raise (GeomdlError_init ''opt input must be a GeomdlTypeSequence'' PNone)
     else
     py_bind (py_len key_value) (\<lambda>n.
     if n \<noteq> 2
     then py_raise (GeomdlError_init
            ''opt input must have a size of 2, corresponding to [0:key] => [1:value]'' PNone)
     else
     py_bind (py_getitem key_value (PInt 0)) (\<lambda>k0.
     py_bind (isinstance reg k0 GeomdlTypeString) (\<lambda>is_str.
     if \<not> is_str
     then py_raise (GeomdlError_init ''key must be GeomdlTypeString'' PNone)
     else
     py_bind (py_getitem key_value (PInt 1)) (\<lambda>v1.
     if v1 = PNone
     then
       py_bind (py_getattr self ''_opt_data'') (\<lambda>d.
       py_bind (py_iter key_value) (\<lambda>args.
       py_bind (py_pop d args) (\<lambda>_.
       py_return ())))
     else
       py_bind (py_getitem key_value (PInt 1)) (\<lambda>v.
       py_bind (py_getattr self ''_opt_data'') (\<lambda>d.
       py_bind (py_getitem key_value (PInt 0)) (\<lambda>k.
       py_setitem d k v))))))))"

definition GeomdlBase_opt_del :: "pyval \<Rightarrow> unit py" where
  "GeomdlBase_opt_del self =
     py_bind GeomdlDict_new (\<lambda>d. py_setattr self ''_opt_data'' d)"


text \<open>\<open>GeomdlBase.reset(self, **kwargs)\<close>.\<close>

definition GeomdlBase_reset :: "pyval \<Rightarrow> kwargs \<Rightarrow> unit py" where
  "GeomdlBase_reset self kwargs =
     py_bind GeomdlDict_new (\<lambda>d1.
     py_bind (py_setattr self ''_opt_data'' d1) (\<lambda>_.
     py_bind GeomdlDict_new (\<lambda>d2.
     py_setattr self ''_cache'' d2)))"

section \<open>\<open>GeomdlEvaluator\<close>\<close>

text \<open>
  \<open>GeomdlEvaluator.__init__(self, *args, **kwargs)\<close>. The right-hand side of the
  assignment is evaluated first, then \<open>self.cfg\<close>; no class of the module defines an
  attribute \<open>cfg\<close>, so the read is that of an instance attribute.
\<close>

definition GeomdlEvaluator_init :: "pyval \<Rightarrow> kwargs \<Rightarrow> unit py" where
  "GeomdlEvaluator_init self kwargs =
     py_bind (GeomdlObject_init self kwargs) (\<lambda>_.
     py_bind (py_return (kwargs_get kwargs ''config_find_span'' PNone)) (\<lambda>f.
     py_bind (py_getattr self ''cfg'') (\<lambda>cfg.
     py_setitem cfg (PStr ''func_find_span'') f)))"

section \<open>Making an instance\<close>

text \<open>The \<open>__init__\<close> that a class inherits.\<close>

fun init_of :: "cls \<Rightarrow> pyval \<Rightarrow> kwargs \<Rightarrow> unit py" where
  "init_of GeomdlObject = GeomdlObject_init"
| "init_of GeomdlBase = GeomdlBase_init"
| "init_of GeomdlEvaluator = GeomdlEvaluator_init"
| "init_of (Subclass n p s) = init_of p"

text \<open>The call \<open>c(**kwargs)\<close>: \<open>__new__\<close>, then \<open>__init__\<close>.\<close>

definition construct :: "cls \<Rightarrow> kwargs \<Rightarrow> pyval py" where
  "construct c kwargs =
     py_bind (cls_new c) (\<lambda>a.
     py_bind (init_of c (PRef a) kwargs) (\<lambda>_.
     py_return (PRef a)))"

section \<open>Registered types and example objects\<close>

text \<open>
  Modelled from the spec: the registrations that the library makes when it is loaded.
  \<open>base.py\<close> declares the two marker classes and registers nothing; the calls of
  \<open>register\<close> are in a part of the package that is not at hand. The spec asks that the
  built-in string type is registered as string-like and the built-in ordered sequence
  type as sequence-like.
\<close>

definition default_registry :: registry where
  "default_registry = [(GeomdlTypeSequence, TList), (GeomdlTypeString, TStr)]"

text \<open>The items of a built-in list or tuple; \<open>None\<close> for any other value.\<close>

definition seq_items :: "heap \<Rightarrow> pyval \<Rightarrow> pyval list option" where
  "seq_items h v =
     (case v of
        PTuple xs \<Rightarrow> Some xs
      | PRef a \<Rightarrow> (case lookup h a of Some (OList xs) \<Rightarrow> Some xs | _ \<Rightarrow> None)
      | _ \<Rightarrow> None)"

text \<open>
  A concrete evaluator class, as a user of the library writes it: it derives from
  \<open>GeomdlEvaluator\<close> and implements \<open>evaluate\<close> and \<open>derivatives\<close>.
\<close>

definition MyEvaluator :: cls where
  "MyEvaluator = Subclass ''MyEvaluator'' GeomdlEvaluator None"

text \<open>
  The program
  \<^verbatim>\<open>g = GeomdlBase(id=7, name='g'); g.opt['k'] = [1, 2]; g._cache['pts'] = 1\<close>
  and the heap it builds from the empty heap, with \<open>g\<close> at address 0.
\<close>

definition geom_program :: "pyval py" where
  "geom_program =
     py_bind (construct GeomdlBase [(''id'', PInt 7), (''name'', PStr ''g'')]) (\<lambda>g.
     py_bind (alloc (OList [PInt 1, PInt 2])) (\<lambda>l.
     py_bind (GeomdlBase_opt_get g) (\<lambda>d.
     py_bind (py_setitem d (PStr ''k'') (PRef l)) (\<lambda>_.
     py_bind (py_getattr g ''_cache'') (\<lambda>c.
     py_bind (py_setitem c (PStr ''pts'') (PInt 1)) (\<lambda>_.
     py_return g))))))"

definition geom_heap :: heap where
  "geom_heap =
     [OInst GeomdlBase
        [(''_name'', PStr ''g''), (''_id'', PInt 7), (''_cfg'', PRef 3),
         (''_dimension'', PInt 0), (''_geom_type'', PStr []),
         (''_opt_data'', PRef 2), (''_cache'', PRef 4)],
      ODict [],
      ODict [(PStr ''k'', PRef 5)],
      ODict [],
      ODict [(PStr ''pts'', PInt 1)],
      OList [PInt 1, PInt 2]]"

text \<open>The heap of a freshly made \<open>GeomdlObject()\<close>, at address 0.\<close>

definition object_heap :: heap where
  "object_heap =
     [OInst GeomdlObject
        [(''_name'', PStr ''GeomdlObject''), (''_id'', PInt 0), (''_cfg'', PRef 1)],
      ODict []]"

text \<open>
  The heap after \<^verbatim>\<open>c = copy.copy(g)\<close> on \<open>geom_heap\<close>: the copy \<open>c\<close> is at address 6.
\<close>

definition geom_copy_heap :: heap where
  "geom_copy_heap =
     geom_heap @
     [OInst GeomdlBase
        [(''_dimension'', PInt 0), (''_geom_type'', PStr []),
         (''_opt_data'', PRef 7), (''_cache'', PRef 8)],
      ODict [(PStr ''k'', PRef 5)],
      ODict [(PStr ''pts'', PInt 1)]]"

text \<open>
  The heap after \<^verbatim>\<open>c = copy.deepcopy(g)\<close> on \<open>geom_heap\<close>: the copy \<open>c\<close> is at address
  6, its cache at 7, its custom data at 8.
\<close>

definition geom_deepcopy_heap :: heap where
  "geom_deepcopy_heap =
     geom_heap @
     [OInst GeomdlBase
        [(''_dimension'', PInt 0), (''_geom_type'', PStr []),
         (''_opt_data'', PRef 8), (''_cache'', PRef 7)],
      ODict [],
      ODict [(PStr ''k'', PRef 9)],
      OList [PInt 1, PInt 2]]"





text \<open>
  \<open>geom_heap\<close> followed by four lists: \<^verbatim>\<open>['z', None]\<close> at address 6, \<^verbatim>\<open>[1, None]\<close> at 7,
  \<^verbatim>\<open>['k', 2]\<close> at 8 and \<^verbatim>\<open>['k', 1, 2]\<close> at 9.
\<close>

definition pairs_heap :: heap where
  "pairs_heap =
     geom_heap @
     [OList [PStr ''z'', PNone],
      OList [PInt 1, PNone],
      OList [PStr ''k'', PInt 2],
      OList [PStr ''k'', PInt 1, PInt 2]]"

section \<open>Properties\<close>

subsection \<open>The example heaps are the ones the constructors build\<close>

lemma geom_program_heap: "geom_program [] = (Inr (PRef 0), geom_heap)"
  by code_simp

lemma object_heap_constructed: "construct GeomdlObject [] [] = (Inr (PRef 0), object_heap)"
  by code_simp

subsection \<open>Reading \<open>dimension\<close>\<close>

text \<open>
  Claim C3 says that reading \<open>dimension\<close> returns the stored dimension (0 by default)
  and does not fail. On a new \<open>GeomdlBase()\<close> the stored attribute \<open>_dimension\<close> is 0, but
  the getter reads \<open>self._dim\<close>, which no method sets and which is not a slot: the read
  raises \<open>AttributeError\<close>.
\<close>

theorem dimension_getter_raises:
  "fst (py_bind (construct GeomdlBase []) GeomdlBase_dimension []) = Inl (AttributeError ''_dim'')
   \<and> fst (py_bind (construct GeomdlBase []) (\<lambda>g. py_getattr g ''_dimension'') []) = Inr (PInt 0)"
  by code_simp

subsection \<open>Making an evaluator\<close>

text \<open>
  Claim C6 says that making an evaluator succeeds and stores the span-finding function
  under \<open>func_find_span\<close>. \<open>GeomdlEvaluator.__init__\<close> writes to \<open>self.cfg\<close>, while the
  dictionary made by \<open>GeomdlObject.__init__\<close> is \<open>self._cfg\<close>: with or without the
  keyword \<open>config_find_span\<close> the call raises \<open>AttributeError\<close>, and the dictionary
  \<open>_cfg\<close> is left empty.
\<close>

theorem evaluator_init_raises:
  "construct MyEvaluator [(''config_find_span'', PFunc 0)] [] =
     (Inl (AttributeError ''cfg''),
      [OInst MyEvaluator
         [(''_name'', PStr ''MyEvaluator''), (''_id'', PInt 0), (''_cfg'', PRef 1)],
       ODict []])
   \<and> fst (construct MyEvaluator [] []) = Inl (AttributeError ''cfg'')"
  by code_simp

subsection \<open>Copies of a \<open>GeomdlBase\<close>\<close>

text \<open>
  Claim C2 says that a shallow copy holds a shallow copy of every attribute of the
  type, the inherited \<open>id\<close>, \<open>name\<close> and configuration included. \<open>__copy__\<close> runs over
  \<open>self.__slots__\<close>, and for a \<open>GeomdlBase\<close> that is the tuple declared by \<open>GeomdlBase\<close>
  alone: the copy of \<open>g\<close> has the four attributes of \<open>GeomdlBase\<close> and none of
  \<open>_name\<close>, \<open>_id\<close>, \<open>_cfg\<close>, so reading its \<open>id\<close> or \<open>name\<close> raises, while \<open>g.id\<close> is 7.
\<close>

theorem copy_drops_inherited_attributes:
  "copy_copy 2 (PRef 0) geom_heap = (Inr (PRef 6), geom_copy_heap)
   \<and> GeomdlObject_id_get (PRef 0) geom_copy_heap = (Inr (PInt 7), geom_copy_heap)
   \<and> GeomdlObject_id_get (PRef 6) geom_copy_heap = (Inl (AttributeError ''_id''), geom_copy_heap)
   \<and> GeomdlObject_name_get (PRef 6) geom_copy_heap = (Inl (AttributeError ''_name''), geom_copy_heap)
   \<and> py_getattr (PRef 6) ''_cfg'' geom_copy_heap = (Inl (AttributeError ''_cfg''), geom_copy_heap)"
  by code_simp

text \<open>
  Claim C1 says that a deep copy gets a fresh empty cache and a deep copy of \<open>opt_data\<close>
  and of all other attributes. The first two hold on \<open>g\<close>: the cache of the copy is the
  new empty dictionary at 7, its custom data the new dictionary at 8 with a new list at
  9. The loop of \<open>__deepcopy__\<close> runs over \<open>self.__slots__\<close> as that of \<open>__copy__\<close> does,
  so \<open>_name\<close>, \<open>_id\<close> and \<open>_cfg\<close> are not copied at all.
\<close>

theorem deepcopy_drops_inherited_attributes:
  "copy_deepcopy 4 (PRef 0) [] geom_heap =
     (Inr (PRef 6, [(0, PRef 6), (4, PRef 7), (2, PRef 8), (5, PRef 9)]), geom_deepcopy_heap)
   \<and> GeomdlObject_id_get (PRef 0) geom_deepcopy_heap = (Inr (PInt 7), geom_deepcopy_heap)
   \<and> GeomdlObject_id_get (PRef 6) geom_deepcopy_heap =
       (Inl (AttributeError ''_id''), geom_deepcopy_heap)
   \<and> GeomdlObject_name_get (PRef 6) geom_deepcopy_heap =
       (Inl (AttributeError ''_name''), geom_deepcopy_heap)
   \<and> py_getattr (PRef 6) ''_cfg'' geom_deepcopy_heap =
       (Inl (AttributeError ''_cfg''), geom_deepcopy_heap)"
  by code_simp

subsection \<open>Heap and attribute lemmas\<close>

lemma lookup_Some: "lookup h a = Some x \<longleftrightarrow> a < length h \<and> h ! a = x"
  by (auto simp: lookup_def)

lemma lookup_append: "a < length h \<Longrightarrow> lookup (h @ xs) a = lookup h a"
  by (simp add: lookup_def nth_append)

lemma lookup_append_new: "lookup (h @ [x]) (length h) = Some x"
  by (simp add: lookup_def)

lemma lookup_update_same: "a < length h \<Longrightarrow> lookup (h[a := x]) a = Some x"
  by (simp add: lookup_def)


lemma GeomdlDict_new_eq: "GeomdlDict_new h = (Inr (PRef (length h)), h @ [ODict []])"
  by (simp add: GeomdlDict_new_def py_bind_def alloc_def py_return_def)

lemma py_getattr_inst:
  "lookup h a = Some (OInst c as) \<Longrightarrow>
   py_getattr (PRef a) n h =
     (case map_of as n of Some v \<Rightarrow> (Inr v, h) | None \<Rightarrow> (Inl (AttributeError n), h))"
  by (simp add: py_getattr_def)

lemma py_setattr_inst:
  "lookup h a = Some (OInst c as) \<Longrightarrow> n \<in> set (all_slots c) \<or> has_dict c \<Longrightarrow>
   py_setattr (PRef a) n v h = (Inr (), h[a := OInst c (AList.update n v as)])"
  by (auto simp: py_setattr_def)

lemma class_of_inst: "lookup h a = Some (OInst c as) \<Longrightarrow> class_of (PRef a) h = (Inr c, h)"
  by (simp add: class_of_def)

lemma object_slots: "{''_name'', ''_id'', ''_cfg''} \<subseteq> set (all_slots c)"
proof (induction c)
  case (Subclass n p s)
  then show ?case by (cases s) auto
qed auto

lemma base_slots:
  "derives c GeomdlBase \<Longrightarrow>
   {''_dimension'', ''_geom_type'', ''_opt_data'', ''_cache''} \<subseteq> set (all_slots c) \<or> has_dict c"
proof (induction c)
  case (Subclass n p s)
  then show ?case by (cases s) auto
qed auto



lemma py_int_cases:
  "(\<exists>n. py_int v h = (Inr n, h)) \<or> py_int v h = (Inl TypeError, h) \<or> py_int v h = (Inl ValueError, h)"
  by (cases v) (auto simp: py_int_def py_return_def py_raise_def split: option.splits)

lemma GeomdlObject_init_attrs:
  assumes "lookup h a = Some (OInst c as)"
    and "GeomdlObject_init (PRef a) kw h = (Inr u, h')"
  shows "\<exists>as'. lookup h' a = Some (OInst c as')
           \<and> (\<forall>n. n \<notin> {''_name'', ''_id'', ''_cfg''} \<longrightarrow> map_of as' n = map_of as n)"
proof -
  have lt: "a < length h" using assms(1) by (simp add: lookup_Some)
  have sl: "''_name'' \<in> set (all_slots c)" "''_id'' \<in> set (all_slots c)"
    "''_cfg'' \<in> set (all_slots c)"
    using object_slots [of c] by auto
  define nm where "nm = kwargs_get kw ''name'' (PStr (cls_name c))"
  define as1 where "as1 = AList.update ''_name'' nm as"
  define h1 where "h1 = h[a := OInst c as1]"
  have l1: "lookup h1 a = Some (OInst c as1)"
    using lt by (simp add: h1_def lookup_update_same)
  have s1: "py_setattr (PRef a) ''_name'' nm h = (Inr (), h1)"
    using py_setattr_inst [OF assms(1), of "''_name''" nm] sl by (simp add: h1_def as1_def)
  have s2: "py_setattr (PRef a) ''_name'' nm h1 = (Inr (), h1)"
    using py_setattr_inst [OF l1, of "''_name''" nm] sl by (simp add: h1_def as1_def)
  from py_int_cases [of "kwargs_get kw ''id'' (PInt 0)" h1]
  obtain k where k: "py_int (kwargs_get kw ''id'' (PInt 0)) h1 = (Inr k, h1)"
    using assms(2) unfolding GeomdlObject_init_def
    by (auto simp: py_bind_def class_of_inst [OF assms(1)] s1 s2 nm_def [symmetric])
  define as2 where "as2 = AList.update ''_id'' (PInt k) as1"
  define h2 where "h2 = h1[a := OInst c as2]"
  have lt1: "a < length h1" using lt by (simp add: h1_def)
  have l2: "lookup h2 a = Some (OInst c as2)"
    using lt1 by (simp add: h2_def lookup_update_same)
  have s3: "py_setattr (PRef a) ''_id'' (PInt k) h1 = (Inr (), h2)"
    using py_setattr_inst [OF l1, of "''_id''" "PInt k"] sl by (simp add: h2_def as2_def)
  have lt2: "a < length h2" using lt1 by (simp add: h2_def)
  have l3: "lookup (h2 @ [ODict []]) a = Some (OInst c as2)"
    using l2 lt2 by (simp add: lookup_append)
  define as3 where "as3 = AList.update ''_cfg'' (PRef (length h2)) as2"
  have s4: "py_setattr (PRef a) ''_cfg'' (PRef (length h2)) (h2 @ [ODict []])
              = (Inr (), (h2 @ [ODict []])[a := OInst c as3])"
    using py_setattr_inst [OF l3, of "''_cfg''" "PRef (length h2)"] sl by (simp add: as3_def)
  have "GeomdlObject_init (PRef a) kw h = (Inr (), (h2 @ [ODict []])[a := OInst c as3])"
    unfolding GeomdlObject_init_def
    by (simp add: py_bind_def class_of_inst [OF assms(1)] s1 s2 nm_def [symmetric] k s3
        GeomdlDict_new_eq s4)
  then have h': "h' = (h2 @ [ODict []])[a := OInst c as3]" using assms(2) by simp
  have "lookup h' a = Some (OInst c as3)"
    using lt2 by (simp add: h' lookup_update_same)
  moreover have "\<forall>n. n \<notin> {''_name'', ''_id'', ''_cfg''} \<longrightarrow> map_of as3 n = map_of as n"
    by (simp add: as3_def as2_def as1_def update_conv')
  ultimately show ?thesis by blast
qed


lemma GeomdlEvaluator_init_raises:
  assumes "lookup h a = Some (OInst c as)" and "map_of as ''cfg'' = None"
  shows "\<exists>e h'. GeomdlEvaluator_init (PRef a) kw h = (Inl e, h')"
proof (cases "GeomdlObject_init (PRef a) kw h")
  case (Pair r h')
  show ?thesis
  proof (cases r)
    case (Inl e)
    with Pair show ?thesis by (simp add: GeomdlEvaluator_init_def py_bind_def)
  next
    case (Inr u)
    from Pair Inr have "GeomdlObject_init (PRef a) kw h = (Inr u, h')" by simp
    from GeomdlObject_init_attrs [OF assms(1) this]
    obtain as' where l: "lookup h' a = Some (OInst c as')"
      and f: "\<forall>n. n \<notin> {''_name'', ''_id'', ''_cfg''} \<longrightarrow> map_of as' n = map_of as n"
      by blast
    from f [rule_format, of "''cfg''"] have m: "map_of as' ''cfg'' = map_of as ''cfg''" by simp
    have "py_getattr (PRef a) ''cfg'' h' = (Inl (AttributeError ''cfg''), h')"
      using l m assms(2) by (simp add: py_getattr_inst)
    with Pair Inr show ?thesis
      by (simp add: GeomdlEvaluator_init_def py_bind_def py_return_def)
  qed
qed


lemma construct_unfold:
  "construct c kw h =
     (if is_abstract c then (Inl TypeError, h)
      else case init_of c (PRef (length h)) kw (h @ [OInst c []]) of
             (Inl e, h') \<Rightarrow> (Inl e, h')
           | (Inr u, h') \<Rightarrow> (Inr (PRef (length h)), h'))"
  by (simp add: construct_def cls_new_def py_bind_def py_raise_def alloc_def py_return_def
      split: prod.splits sum.splits)


lemma construct_evaluator_raises:
  assumes "derives c GeomdlEvaluator"
  shows "\<exists>e h'. construct c kw h = (Inl e, h')"
proof -
  have i: "init_of c = GeomdlEvaluator_init" using assms by (induction c) auto
  have l0: "lookup (h @ [OInst c []]) (length h) = Some (OInst c [])"
    by (simp add: lookup_append_new)
  from GeomdlEvaluator_init_raises [OF l0, of kw] show ?thesis
    by (auto simp: construct_unfold i)
qed



subsection \<open>Deep copy of an object that is not a \<open>GeomdlBase\<close>\<close>




subsection \<open>\<open>reset\<close>\<close>

lemma reset_result:
  assumes "lookup h a = Some (OInst c as)" and "derives c GeomdlBase"
  shows "GeomdlBase_reset (PRef a) kw h =
     (Inr (), (h @ [ODict [], ODict []])
        [a := OInst c (AList.update ''_cache'' (PRef (Suc (length h)))
                        (AList.update ''_opt_data'' (PRef (length h)) as))])"
proof -
  have lt: "a < length h" using assms(1) by (simp add: lookup_Some)
  have sl: "''_opt_data'' \<in> set (all_slots c) \<or> has_dict c"
    "''_cache'' \<in> set (all_slots c) \<or> has_dict c"
    using base_slots [OF assms(2)] by auto
  let ?h1 = "h @ [ODict []]"
  let ?as1 = "AList.update ''_opt_data'' (PRef (length h)) as"
  let ?h2 = "?h1[a := OInst c ?as1]"
  have l1: "lookup ?h1 a = Some (OInst c as)" using assms(1) lt by (simp add: lookup_append)
  have s1: "py_setattr (PRef a) ''_opt_data'' (PRef (length h)) ?h1 = (Inr (), ?h2)"
    using py_setattr_inst [OF l1 sl(1)] by simp
  have len2: "length ?h2 = Suc (length h)" by simp
  let ?h3 = "?h2 @ [ODict []]"
  have l3: "lookup ?h3 a = Some (OInst c ?as1)"
    using lt by (simp add: lookup_def nth_append)
  have s2: "py_setattr (PRef a) ''_cache'' (PRef (Suc (length h))) ?h3
      = (Inr (), ?h3[a := OInst c (AList.update ''_cache'' (PRef (Suc (length h))) ?as1)])"
    using py_setattr_inst [OF l3 sl(2)] by simp
  have eq: "?h3[a := OInst c (AList.update ''_cache'' (PRef (Suc (length h))) ?as1)]
     = (h @ [ODict [], ODict []])
        [a := OInst c (AList.update ''_cache'' (PRef (Suc (length h))) ?as1)]"
    using lt by (simp add: list_update_append)
  show ?thesis
    unfolding GeomdlBase_reset_def
    by (simp add: py_bind_def GeomdlDict_new_eq s1 s2 [unfolded eq] len2 del: list_update.simps)
qed

text \<open>
  Claim C8: \<open>reset\<close> leaves the custom-data store and the cache empty and leaves \<open>id\<close>,
  \<open>name\<close>, \<open>dimension\<close> and \<open>type\<close> as they were. For every instance of a class derived
  from \<open>GeomdlBase\<close>, \<open>reset\<close> returns; afterwards \<open>opt\<close> and \<open>_cache\<close> are two new empty
  dictionaries, and the four properties read as before (for \<open>dimension\<close>: the stored
  \<open>_dimension\<close> is unchanged, and the getter gives what it gave before).
\<close>

theorem reset_clears_data_and_cache:
  assumes "lookup h a = Some (OInst c as)" and "derives c GeomdlBase"
  shows "\<exists>h'. GeomdlBase_reset (PRef a) kw h = (Inr (), h')
     \<and> GeomdlBase_opt_get (PRef a) h' = (Inr (PRef (length h)), h')
     \<and> lookup h' (length h) = Some (ODict [])
     \<and> py_getattr (PRef a) ''_cache'' h' = (Inr (PRef (Suc (length h))), h')
     \<and> lookup h' (Suc (length h)) = Some (ODict [])
     \<and> fst (GeomdlObject_id_get (PRef a) h') = fst (GeomdlObject_id_get (PRef a) h)
     \<and> fst (GeomdlObject_name_get (PRef a) h') = fst (GeomdlObject_name_get (PRef a) h)
     \<and> fst (GeomdlBase_dimension (PRef a) h') = fst (GeomdlBase_dimension (PRef a) h)
     \<and> fst (GeomdlBase_type (PRef a) h') = fst (GeomdlBase_type (PRef a) h)
     \<and> fst (py_getattr (PRef a) ''_dimension'' h') = fst (py_getattr (PRef a) ''_dimension'' h)"
proof -
  have lt: "a < length h" using assms(1) by (simp add: lookup_Some)
  define as' where "as' = AList.update ''_cache'' (PRef (Suc (length h)))
                        (AList.update ''_opt_data'' (PRef (length h)) as)"
  define h' where "h' = (h @ [ODict [], ODict []])[a := OInst c as']"
  have r: "GeomdlBase_reset (PRef a) kw h = (Inr (), h')"
    using reset_result [OF assms] by (simp add: h'_def as'_def)
  have l: "lookup h' a = Some (OInst c as')"
    using lt by (simp add: h'_def lookup_def)
  have d1: "lookup h' (length h) = Some (ODict [])"
    using lt by (simp add: h'_def lookup_def nth_append)
  have d2: "lookup h' (Suc (length h)) = Some (ODict [])"
    using lt by (simp add: h'_def lookup_def nth_append)
  have m1: "map_of as' ''_opt_data'' = Some (PRef (length h))"
    and m2: "map_of as' ''_cache'' = Some (PRef (Suc (length h)))"
    by (simp_all add: as'_def update_conv')
  have fr: "n \<noteq> ''_opt_data'' \<Longrightarrow> n \<noteq> ''_cache'' \<Longrightarrow> map_of as' n = map_of as n" for n
    by (simp add: as'_def update_conv')
  have g: "n \<noteq> ''_opt_data'' \<Longrightarrow> n \<noteq> ''_cache'' \<Longrightarrow>
      fst (py_getattr (PRef a) n h') = fst (py_getattr (PRef a) n h)" for n
    by (simp add: py_getattr_inst [OF l] py_getattr_inst [OF assms(1)] fr split: option.splits)
  show ?thesis
    apply (rule exI [of _ h'])
    apply (intro conjI)
             apply (rule r)
            apply (simp add: GeomdlBase_opt_get_def py_getattr_inst [OF l] m1)
           apply (rule d1)
          apply (simp add: py_getattr_inst [OF l] m2)
         apply (rule d2)
        apply (simp add: GeomdlObject_id_get_def g)
       apply (simp add: GeomdlObject_name_get_def g)
      apply (simp add: GeomdlBase_dimension_def g)
     apply (simp add: GeomdlBase_type_def g)
    apply (simp add: g)
    done
qed

theorem reset_clears_data_and_cache_witness:
  "lookup geom_heap 0 =
     Some (OInst GeomdlBase
        [(''_name'', PStr ''g''), (''_id'', PInt 7), (''_cfg'', PRef 3),
         (''_dimension'', PInt 0), (''_geom_type'', PStr []),
         (''_opt_data'', PRef 2), (''_cache'', PRef 4)])
   \<and> derives GeomdlBase GeomdlBase
   \<and> (\<exists>h'. GeomdlBase_reset (PRef 0) [] geom_heap = (Inr (), h')
     \<and> GeomdlBase_opt_get (PRef 0) h' = (Inr (PRef (length geom_heap)), h')
     \<and> lookup h' (length geom_heap) = Some (ODict [])
     \<and> py_getattr (PRef 0) ''_cache'' h' = (Inr (PRef (Suc (length geom_heap))), h')
     \<and> lookup h' (Suc (length geom_heap)) = Some (ODict [])
     \<and> fst (GeomdlObject_id_get (PRef 0) h') = fst (GeomdlObject_id_get (PRef 0) geom_heap)
     \<and> fst (GeomdlObject_name_get (PRef 0) h') = fst (GeomdlObject_name_get (PRef 0) geom_heap)
     \<and> fst (GeomdlBase_dimension (PRef 0) h') = fst (GeomdlBase_dimension (PRef 0) geom_heap)
     \<and> fst (GeomdlBase_type (PRef 0) h') = fst (GeomdlBase_type (PRef 0) geom_heap)
     \<and> fst (py_getattr (PRef 0) ''_dimension'' h')
         = fst (py_getattr (PRef 0) ''_dimension'' geom_heap))"
proof -
  have 1: "lookup geom_heap 0 =
     Some (OInst GeomdlBase
        [(''_name'', PStr ''g''), (''_id'', PInt 7), (''_cfg'', PRef 3),
         (''_dimension'', PInt 0), (''_geom_type'', PStr []),
         (''_opt_data'', PRef 2), (''_cache'', PRef 4)])"
    by (simp add: geom_heap_def lookup_def)
  have 2: "derives GeomdlBase GeomdlBase" by simp
  from reset_clears_data_and_cache [OF 1 2, of "[]"] 1 2 show ?thesis by blast
qed

subsection \<open>Setting \<open>id\<close> to a value that is no integer\<close>




subsection \<open>Lemmas on the setter of \<open>opt\<close> and on \<open>get_opt\<close>\<close>

lemma seq_items_len: "seq_items h kv = Some xs \<Longrightarrow> py_len kv h = (Inr (length xs), h)"
  by (auto simp: seq_items_def py_len_def split: pyval.splits option.splits pyobj.splits)

lemma seq_items_iter: "seq_items h kv = Some xs \<Longrightarrow> py_iter kv h = (Inr xs, h)"
  by (auto simp: seq_items_def py_iter_def split: pyval.splits option.splits pyobj.splits)

lemma seq_items_getitem0:
  "seq_items h kv = Some [k, v] \<Longrightarrow> py_getitem kv (PInt 0) h = (Inr k, h)"
  by (auto simp: seq_items_def py_getitem_def seq_index_def
      split: pyval.splits option.splits pyobj.splits)

lemma seq_items_getitem1:
  "seq_items h kv = Some [k, v] \<Longrightarrow> py_getitem kv (PInt 1) h = (Inr v, h)"
  by (auto simp: seq_items_def py_getitem_def seq_index_def
      split: pyval.splits option.splits pyobj.splits)




lemma opt_set_store:
  assumes "isinstance reg kv GeomdlTypeSequence h = (Inr True, h)"
    and "py_len kv h = (Inr 2, h)"
    and "py_getitem kv (PInt 0) h = (Inr k, h)"
    and "isinstance reg k GeomdlTypeString h = (Inr True, h)"
    and "py_getitem kv (PInt 1) h = (Inr v, h)" and "v \<noteq> PNone"
    and "py_getattr self ''_opt_data'' h = (Inr (PRef d), h)"
    and "lookup h d = Some (ODict kvs)" and "hashable h k"
  shows "GeomdlBase_opt_set reg self kv h = (Inr (), h[d := ODict (AList.update k v kvs)])"
  using assms by (simp add: GeomdlBase_opt_set_def py_bind_def py_setitem_def)

lemma opt_set_remove:
  assumes "isinstance reg kv GeomdlTypeSequence h = (Inr True, h)"
    and "seq_items h kv = Some [k, PNone]"
    and "isinstance reg k GeomdlTypeString h = (Inr True, h)"
    and "py_getattr self ''_opt_data'' h = (Inr (PRef d), h)"
    and "lookup h d = Some (ODict kvs)" and "hashable h k"
  shows "GeomdlBase_opt_set reg self kv h
           = (Inr (), if map_of kvs k = None then h else h[d := ODict (AList.delete k kvs)])"
  using assms seq_items_len [OF assms(2)] seq_items_iter [OF assms(2)]
    seq_items_getitem0 [OF assms(2)] seq_items_getitem1 [OF assms(2)]
  by (auto simp: GeomdlBase_opt_set_def py_bind_def py_pop_def py_return_def)




lemma isinstance_default_list:
  "lookup h l = Some (OList xs) \<Longrightarrow>
   isinstance default_registry (PRef l) GeomdlTypeSequence h = (Inr True, h)"
  by (simp add: isinstance_def default_registry_def type_of_def)

lemma isinstance_default_str:
  "isinstance default_registry (PStr s) GeomdlTypeString h = (Inr True, h)"
  by (simp add: isinstance_def default_registry_def type_of_def)




lemma heap_update_same: "lookup h d = Some x \<Longrightarrow> h[d := x] = h"
  by (auto simp: lookup_Some)

lemma delete_absent: "map_of kvs k = None \<Longrightarrow> AList.delete k kvs = kvs"
  by (induction kvs) (auto split: if_splits)

subsection \<open>The checks of the setter of \<open>opt\<close>\<close>



subsection \<open>Absent keys\<close>




subsection \<open>The built-in list and string\<close>

text \<open>
  Claim C5: with the registrations that the library makes, a built-in list
  \<^verbatim>\<open>[s, v]\<close> whose first element is a built-in string passes both checks of the setter
  of \<open>opt\<close>, and the setter returns: the store then holds \<open>v\<close> under \<open>s\<close>, or no longer
  holds \<open>s\<close> when \<open>v\<close> is \<open>None\<close>.
\<close>

theorem builtin_pair_passes_checks:
  assumes "lookup h l = Some (OList [PStr s, v])"
    and "py_getattr self ''_opt_data'' h = (Inr (PRef d), h)"
    and "lookup h d = Some (ODict kvs)"
  shows "isinstance default_registry (PRef l) GeomdlTypeSequence h = (Inr True, h)
       \<and> isinstance default_registry (PStr s) GeomdlTypeString h = (Inr True, h)
       \<and> GeomdlBase_opt_set default_registry self (PRef l) h
           = (Inr (), h[d := ODict (if v = PNone then AList.delete (PStr s) kvs
                                    else AList.update (PStr s) v kvs)])"
proof -
  have seq: "isinstance default_registry (PRef l) GeomdlTypeSequence h = (Inr True, h)"
    by (rule isinstance_default_list [OF assms(1)])
  have str: "isinstance default_registry (PStr s) GeomdlTypeString h = (Inr True, h)"
    by (rule isinstance_default_str)
  have items: "seq_items h (PRef l) = Some [PStr s, v]"
    using assms(1) by (simp add: seq_items_def)
  have hk: "hashable h (PStr s)" by simp
  have "GeomdlBase_opt_set default_registry self (PRef l) h
           = (Inr (), h[d := ODict (if v = PNone then AList.delete (PStr s) kvs
                                    else AList.update (PStr s) v kvs)])"
  proof (cases "v = PNone")
    case True
    with items have items': "seq_items h (PRef l) = Some [PStr s, PNone]" by simp
    from opt_set_remove [OF seq items' str assms(2) assms(3) hk] True
    show ?thesis
      by (simp add: delete_absent heap_update_same [OF assms(3)])
  next
    case False
    from opt_set_store [OF seq _ seq_items_getitem0 [OF items] str seq_items_getitem1 [OF items]
        False assms(2) assms(3) hk] seq_items_len [OF items] False
    show ?thesis by simp
  qed
  with seq str show ?thesis by simp
qed

theorem builtin_pair_passes_checks_witness:
  "lookup pairs_heap 8 = Some (OList [PStr ''k'', PInt 2])
   \<and> py_getattr (PRef 0) ''_opt_data'' pairs_heap = (Inr (PRef 2), pairs_heap)
   \<and> lookup pairs_heap 2 = Some (ODict [(PStr ''k'', PRef 5)])
   \<and> isinstance default_registry (PRef 8) GeomdlTypeSequence pairs_heap = (Inr True, pairs_heap)
   \<and> isinstance default_registry (PStr ''k'') GeomdlTypeString pairs_heap = (Inr True, pairs_heap)
   \<and> GeomdlBase_opt_set default_registry (PRef 0) (PRef 8) pairs_heap
       = (Inr (), pairs_heap[2 := ODict [(PStr ''k'', PInt 2)]])"
proof -
  have 1: "lookup pairs_heap 8 = Some (OList [PStr ''k'', PInt 2])" by code_simp
  have 2: "py_getattr (PRef 0) ''_opt_data'' pairs_heap = (Inr (PRef 2), pairs_heap)"
    by code_simp
  have 3: "lookup pairs_heap 2 = Some (ODict [(PStr ''k'', PRef 5)])" by code_simp
  from builtin_pair_passes_checks [OF 1 2 3] 1 2 3 show ?thesis by simp
qed

end
